theory Spec2Isabelle
  imports Main "HOL-Library.Word"
begin

unbundle bit_operations_syntax

section \<open>Package frame (core/frame/frame.go)\<close>

text \<open>
  A Go \<^verbatim>\<open>error\<close> value that is not nil is an \<open>error\<close> carrying the text its
  \<^verbatim>\<open>Error()\<close> method returns; a Go result of type \<^verbatim>\<open>error\<close> is an
  \<open>error option\<close>, with \<open>None\<close> for nil.
\<close>

datatype error = Error (message: string)

type_synonym byte = "8 word"
type_synonym bytes = "8 word list"

text \<open>\<^verbatim>\<open>type Type byte\<close> and \<^verbatim>\<open>type Tag = uint32\<close>.\<close>

type_synonym Type = "8 word"
type_synonym Tag = "32 word"

text \<open>
  The nine frame structs of frame.go. The interface \<^verbatim>\<open>Frame\<close> is the tagged union of
  the pointers to them; a nil slice and an empty slice are both \<open>[]\<close>.
\<close>

datatype Frame =
    AuthenticationFrame (AuthName: string) (AuthPayload: string)
  | AuthenticationAckFrame
  | DataFrame (Metadata: bytes) (Tag: Tag) (Payload: bytes)
  | HandshakeFrame (Name: string) (ID: string) (StreamType: byte)
      (ObserveDataTags: "Tag list") (Metadata: bytes)
  | HandshakeAckFrame (StreamID: string)
  | HandshakeRejectedFrame (ID: string) (Message: string)
  | BackflowFrame (Tag: Tag) (Carriage: bytes)
  | RejectedFrame (Message: string)
  | GoawayFrame (Message: string)

definition TypeAuthenticationFrame :: Type where
  "TypeAuthenticationFrame = 0x03"

definition TypeAuthenticationAckFrame :: Type where
  "TypeAuthenticationAckFrame = 0x11"

definition TypeDataFrame :: Type where
  "TypeDataFrame = 0x3F"

definition TypeHandshakeFrame :: Type where
  "TypeHandshakeFrame = 0x31"

definition TypeHandshakeRejectedFrame :: Type where
  "TypeHandshakeRejectedFrame = 0x14"

definition TypeHandshakeAckFrame :: Type where
  "TypeHandshakeAckFrame = 0x29"

definition TypeRejectedFrame :: Type where
  "TypeRejectedFrame = 0x39"

definition TypeBackflowFrame :: Type where
  "TypeBackflowFrame = 0x2D"

definition TypeGoawayFrame :: Type where
  "TypeGoawayFrame = 0x2E"

text \<open>The method \<^verbatim>\<open>Type()\<close> of each frame struct.\<close>

fun Type :: "Frame \<Rightarrow> Type" where
  "Type (AuthenticationFrame _ _) = TypeAuthenticationFrame"
| "Type AuthenticationAckFrame = TypeAuthenticationAckFrame"
| "Type (DataFrame _ _ _) = TypeDataFrame"
| "Type (HandshakeFrame _ _ _ _ _) = TypeHandshakeFrame"
| "Type (HandshakeAckFrame _) = TypeHandshakeAckFrame"
| "Type (HandshakeRejectedFrame _ _) = TypeHandshakeRejectedFrame"
| "Type (BackflowFrame _ _) = TypeBackflowFrame"
| "Type (RejectedFrame _) = TypeRejectedFrame"
| "Type (GoawayFrame _) = TypeGoawayFrame"

text \<open>
  \<^verbatim>\<open>frameTypeNewFuncMap\<close>: a constructor of the zero-valued struct for each type code.
  The keys of the Go map literal are pairwise distinct constants, so the order of the
  association list does not matter.
\<close>

definition frameTypeNewFuncMap :: "Type \<rightharpoonup> (unit \<Rightarrow> Frame)" where
  "frameTypeNewFuncMap = map_of
     [(TypeAuthenticationFrame, \<lambda>_. AuthenticationFrame [] []),
      (TypeAuthenticationAckFrame, \<lambda>_. AuthenticationAckFrame),
      (TypeDataFrame, \<lambda>_. DataFrame [] 0 []),
      (TypeHandshakeFrame, \<lambda>_. HandshakeFrame [] [] 0 [] []),
      (TypeHandshakeRejectedFrame, \<lambda>_. HandshakeRejectedFrame [] []),
      (TypeHandshakeAckFrame, \<lambda>_. HandshakeAckFrame []),
      (TypeRejectedFrame, \<lambda>_. RejectedFrame []),
      (TypeBackflowFrame, \<lambda>_. BackflowFrame 0 []),
      (TypeGoawayFrame, \<lambda>_. GoawayFrame [])]"

text \<open>
  The verb \<^verbatim>\<open>%c\<close> of package fmt on a byte: the UTF-8 encoding of the code point of
  that number (one byte below 0x80, two bytes from 0x80 to 0xFF).
\<close>

definition fmt_c :: "byte \<Rightarrow> string" where
  "fmt_c b =
     (if b < 0x80 then [char_of (unat b)]
      else [char_of (unat (0xC0 OR drop_bit 6 b)), char_of (unat (0x80 OR (b AND 0x3F)))])"

text \<open>
  \<^verbatim>\<open>NewFrame\<close> returns the pair (frame, nil) as \<open>Inr frame\<close> and the pair (nil, err)
  as \<open>Inl err\<close>.
\<close>

definition NewFrame :: "Type \<Rightarrow> error + Frame" where
  "NewFrame f =
     (case frameTypeNewFuncMap f of
        Some newFunc \<Rightarrow> Inr (newFunc ())
      | None \<Rightarrow> Inl (Error (''frame: cannot new a frame from '' @ fmt_c f)))"

definition frameTypes :: "Type set" where
  "frameTypes =
     {TypeAuthenticationFrame, TypeAuthenticationAckFrame, TypeDataFrame, TypeHandshakeFrame,
      TypeHandshakeRejectedFrame, TypeHandshakeAckFrame, TypeRejectedFrame, TypeBackflowFrame,
      TypeGoawayFrame}"

section \<open>What the stream group uses and the sources do not hold\<close>

text \<open>
  Modelled from the spec: the two frames that the stream group reads and writes and that
  frame.go does not declare, \<^verbatim>\<open>CloseStreamFrame\<close> with its stream id and reason and
  \<^verbatim>\<open>AuthenticationRespFrame\<close> with its ok flag and reason. A frame on the control stream
  is one of them or a frame of frame.go.
\<close>

datatype ControlFrame =
    Declared Frame
  | CloseStreamFrame (CloseStreamID: string) (CloseReason: string)
  | AuthenticationRespFrame (RespOK: bool) (RespReason: string)

definition NewAuthenticationRespFrame :: "bool \<Rightarrow> string \<Rightarrow> ControlFrame" where
  "NewAuthenticationRespFrame ok reason = AuthenticationRespFrame ok reason"

text \<open>
  Modelled from the spec: \<^verbatim>\<open>DataStream\<close>, the entity with the immutable attributes id,
  name, stream type, observed tags and metadata and a transport handle. The handle is
  the number of the transport stream, in the order \<^verbatim>\<open>OpenStreamSync\<close> returned them; the
  metadata is whatever the builder returns. The logger and the control stream that
  \<^verbatim>\<open>newDataStream\<close> also receives are the group's own, shared by reference.
\<close>

record 'md DataStream =
  ds_name :: string
  ds_id :: string
  ds_streamType :: byte
  ds_metadata :: 'md
  ds_stream :: nat
  ds_observed :: "Tag list"

definition newDataStream ::
  "string \<Rightarrow> string \<Rightarrow> byte \<Rightarrow> 'md \<Rightarrow> nat \<Rightarrow> Tag list \<Rightarrow> 'md DataStream" where
  "newDataStream name ident streamType md stream observed =
     \<lparr>ds_name = name, ds_id = ident, ds_streamType = streamType, ds_metadata = md,
      ds_stream = stream, ds_observed = observed\<rparr>"

text \<open>
  The collaborators of the stream group are interfaces: what a call on one of them
  returns is not decided by this code. \<open>Env\<close> gives the error (or nil) that each call
  returns. It also holds the two values of absent packages that the code uses as they
  are: the frame that the constructor \<^verbatim>\<open>frame.NewHandshakeAckFrame()\<close>, called without
  arguments, returns, and the number \<^verbatim>\<open>yerr.ErrorCodeRejected\<close>.
\<close>

record Env =
  WriteFrame_err :: "ControlFrame \<Rightarrow> error option"
  CloseWithError_err :: "error option"
  OpenStreamSync_err :: "nat \<Rightarrow> error option"
  Write_err :: "nat \<Rightarrow> error option"
  Close_err :: "nat \<Rightarrow> error option"
  Get_err :: "string \<Rightarrow> error option"
  NewHandshakeAckFrame :: Frame
  ErrorCodeRejected :: "64 word"

datatype level = DebugLevel | WarnLevel | ErrorLevel

text \<open>
  \<open>World\<close> is everything the stream group acts on, as a record of the calls made so far:
  the frames passed to \<^verbatim>\<open>WriteFrame\<close> on the control stream, the calls of
  \<^verbatim>\<open>CloseWithError\<close> on the connection, the number of transport streams opened, for each
  transport stream the frames whose encoding was passed to \<^verbatim>\<open>Write\<close> and the number of
  calls of \<^verbatim>\<open>Close\<close>, the Connector, the counter of the wait group, the data streams for
  which a goroutine was started, and the log (level and message of each entry).
\<close>

record 'md World =
  WriteFrame_calls :: "ControlFrame list"
  CloseWithError_calls :: "(64 word \<times> string) list"
  opened :: nat
  Write_calls :: "nat \<Rightarrow> Frame list"
  Close_calls :: "nat \<Rightarrow> nat"
  connector :: "string \<rightharpoonup> 'md DataStream"
  group :: nat
  spawned :: "'md DataStream list"
  logs :: "(level \<times> string) list"

definition logAt :: "level \<Rightarrow> string \<Rightarrow> 'md World \<Rightarrow> 'md World" where
  "logAt l msg w = w\<lparr>logs := logs w @ [(l, msg)]\<rparr>"

text \<open>\<^verbatim>\<open>controlStream.WriteFrame\<close> and \<^verbatim>\<open>conn.CloseWithError\<close>.\<close>

definition WriteFrame :: "Env \<Rightarrow> ControlFrame \<Rightarrow> 'md World \<Rightarrow> error option \<times> 'md World" where
  "WriteFrame env f w = (WriteFrame_err env f, w\<lparr>WriteFrame_calls := WriteFrame_calls w @ [f]\<rparr>)"

definition CloseWithError ::
  "Env \<Rightarrow> 64 word \<Rightarrow> string \<Rightarrow> 'md World \<Rightarrow> error option \<times> 'md World" where
  "CloseWithError env code msg w =
     (CloseWithError_err env, w\<lparr>CloseWithError_calls := CloseWithError_calls w @ [(code, msg)]\<rparr>)"

text \<open>
  \<^verbatim>\<open>conn.OpenStreamSync\<close> returns the next transport stream or an error;
  \<^verbatim>\<open>stream.Write\<close> is given the encoding of a frame.
\<close>

definition OpenStreamSync :: "Env \<Rightarrow> 'md World \<Rightarrow> (error + nat) \<times> 'md World" where
  "OpenStreamSync env w =
     (case OpenStreamSync_err env (opened w) of
        Some err \<Rightarrow> (Inl err, w)
      | None \<Rightarrow> (Inr (opened w), w\<lparr>opened := Suc (opened w)\<rparr>))"

definition Write :: "Env \<Rightarrow> nat \<Rightarrow> Frame \<Rightarrow> 'md World \<Rightarrow> error option \<times> 'md World" where
  "Write env stream f w =
     (Write_err env stream,
      w\<lparr>Write_calls := (Write_calls w)(stream := Write_calls w stream @ [f])\<rparr>)"

text \<open>
  Modelled from the spec: \<^verbatim>\<open>DataStream.Close\<close>, which closes the transport of the data
  stream and returns nothing or a close error. The model counts the call.
\<close>

definition Close :: "Env \<Rightarrow> 'md DataStream \<Rightarrow> 'md World \<Rightarrow> error option \<times> 'md World" where
  "Close env s w =
     (Close_err env (ds_stream s),
      w\<lparr>Close_calls := (Close_calls w)(ds_stream s := Suc (Close_calls w (ds_stream s)))\<rparr>)"

text \<open>
  Modelled from the spec: the \<^verbatim>\<open>Connector\<close>, a map from stream id to data stream.
  \<^verbatim>\<open>add\<close> inserts, and if the id is already present the old entry is replaced and the
  old stream is closed; \<^verbatim>\<open>get\<close> returns the stream, whether it is present, and an error
  that is not fatal; \<^verbatim>\<open>remove\<close> is idempotent and does not close the stream.
\<close>

definition Connector_Add :: "Env \<Rightarrow> string \<Rightarrow> 'md DataStream \<Rightarrow> 'md World \<Rightarrow> 'md World" where
  "Connector_Add env streamID stream w =
     (let w1 = (case connector w streamID of
                  Some old \<Rightarrow> snd (Close env old w)
                | None \<Rightarrow> w)
      in w1\<lparr>connector := (connector w1)(streamID \<mapsto> stream)\<rparr>)"

definition Connector_Get ::
  "Env \<Rightarrow> string \<Rightarrow> 'md World \<Rightarrow> 'md DataStream option \<times> error option" where
  "Connector_Get env streamID w = (connector w streamID, Get_err env streamID)"

definition Connector_Remove :: "string \<Rightarrow> 'md World \<Rightarrow> 'md World" where
  "Connector_Remove streamID w = w\<lparr>connector := (connector w)(streamID := None)\<rparr>"

section \<open>StreamGroup\<close>

text \<open>
  The type assertion \<^verbatim>\<open>first.(*frame.AuthenticationFrame)\<close>: the frame when it is an
  AuthenticationFrame, and not ok otherwise.
\<close>

fun asAuthenticationFrame :: "ControlFrame \<Rightarrow> Frame option" where
  "asAuthenticationFrame (Declared (AuthenticationFrame n p)) = Some (AuthenticationFrame n p)"
| "asAuthenticationFrame _ = None"

definition authFailed :: "Env \<Rightarrow> error \<Rightarrow> 'md World \<Rightarrow> error option \<times> 'md World" where
  "authFailed env se w =
     (let resp = NewAuthenticationRespFrame False (message se);
          (err, w1) = WriteFrame env resp w
      in case err of
           Some e \<Rightarrow> (Some e, w1)
         | None \<Rightarrow> CloseWithError env (ErrorCodeRejected env) (message se) w1)"

definition authOK :: "Env \<Rightarrow> 'md World \<Rightarrow> error option \<times> 'md World" where
  "authOK env w = WriteFrame env (NewAuthenticationRespFrame True []) w"

text \<open>
  \<^verbatim>\<open>VerifyAuthentication\<close>. \<open>first\<close> is what the call of \<^verbatim>\<open>ReadFrame\<close> that opens the
  function returns: \<open>Inl err\<close> for an error, \<open>Inr f\<close> for the frame with a nil error. The
  result is the error returned (\<open>None\<close> for nil) and the world after the call. Where the
  type assertion fails the source returns \<^verbatim>\<open>err\<close>, the error of the read, which is nil
  there.
\<close>

definition VerifyAuthentication ::
  "Env \<Rightarrow> (Frame \<Rightarrow> bool \<times> error option) \<Rightarrow> error + ControlFrame \<Rightarrow> 'md World \<Rightarrow>
   error option \<times> 'md World" where
  "VerifyAuthentication env verifyFunc first w =
     (case first of
        Inl err \<Rightarrow> (Some err, w)
      | Inr first' \<Rightarrow>
          (let err = None in
           case asAuthenticationFrame first' of
             None \<Rightarrow> (err, w)
           | Some f \<Rightarrow>
               (let (ok, err) = verifyFunc f in
                case err of
                  Some e \<Rightarrow> (Some e, w)
                | None \<Rightarrow>
                    if \<not> ok
                    then authFailed env
                           (Error (''yomo: authentication failed, client credential name is '' @
                                   AuthName f)) w
                    else authOK env w)))"

text \<open>
  One pass through the body of the loop of \<^verbatim>\<open>Run\<close>, after \<^verbatim>\<open>ReadFrame\<close> has returned
  the frame \<open>f\<close>. The result \<open>Some err\<close> is \<^verbatim>\<open>return err\<close>; \<open>None\<close> is the next iteration,
  reached by \<^verbatim>\<open>continue\<close> or at the end of the switch. What \<^verbatim>\<open>stream.Write\<close> returns is
  dropped, as in the source. The goroutine runs beside the loop: the model records for
  which data stream it was started.
\<close>

fun iteration ::
  "Env \<Rightarrow> (Frame \<Rightarrow> error + 'md) \<Rightarrow> ControlFrame \<Rightarrow> 'md World \<Rightarrow> error option \<times> 'md World" where
  "iteration env mb (Declared (HandshakeFrame name ident streamType observed md0)) w =
     (case OpenStreamSync env w of
        (Inl err, w1) \<Rightarrow> (Some err, w1)
      | (Inr stream, w1) \<Rightarrow>
          (let w2 = snd (Write env stream (NewHandshakeAckFrame env) w1) in
           case mb (HandshakeFrame name ident streamType observed md0) of
             Inl err \<Rightarrow> (None, logAt WarnLevel ''Build Metadata Failed'' w2)
           | Inr md \<Rightarrow>
               (let dataStream = newDataStream name ident streamType md stream observed;
                    w3 = Connector_Add env (ds_id dataStream) dataStream w2;
                    w4 = w3\<lparr>group := group w3 + 1\<rparr>
                in (None, w4\<lparr>spawned := spawned w4 @ [dataStream]\<rparr>))))"
| "iteration env mb (CloseStreamFrame streamID reason) w =
     (let (stream, err) = Connector_Get env streamID w;
          w1 = (case err of
                  Some e \<Rightarrow> logAt ErrorLevel ''Connector Get Error'' w
                | None \<Rightarrow> w)
      in case stream of
           None \<Rightarrow> (None, w1)
         | Some s \<Rightarrow>
             (let (cerr, w2) = Close env s w1;
                  w3 = (case cerr of
                          Some e \<Rightarrow> logAt ErrorLevel ''Close Stream Error'' w2
                        | None \<Rightarrow> w2);
                  w4 = logAt DebugLevel ''Client Close Stream'' w3
              in (None, Connector_Remove streamID w4)))"
| "iteration env mb _ w = (None, w)"

text \<open>
  \<^verbatim>\<open>Run\<close>. Each iteration of the loop starts with one call of \<^verbatim>\<open>ReadFrame\<close>; \<open>reads\<close>
  lists what these calls return, in order. The loop has no other exit than a return, so
  the list is also the fuel: the result \<open>Some err\<close> says that \<^verbatim>\<open>Run\<close> has returned
  \<open>err\<close>, and \<open>None\<close> that after the reads listed the loop is still running, waiting in
  \<^verbatim>\<open>ReadFrame\<close>.
\<close>

fun Run ::
  "Env \<Rightarrow> (Frame \<Rightarrow> error + 'md) \<Rightarrow> (error + ControlFrame) list \<Rightarrow> 'md World \<Rightarrow>
   error option \<times> 'md World" where
  "Run env mb [] w = (None, w)"
| "Run env mb (Inl err # reads) w = (Some err, w)"
| "Run env mb (Inr f # reads) w =
     (case iteration env mb f w of
        (Some err, w1) \<Rightarrow> (Some err, w1)
      | (None, w1) \<Rightarrow> Run env mb reads w1)"

section \<open>Sample values\<close>

text \<open>
  Values for the closed theorems below: an environment in which every call succeeds and
  \<^verbatim>\<open>NewHandshakeAckFrame()\<close> returns the zero-valued struct, as the constructor for
  that type in \<open>frameTypeNewFuncMap\<close> does; environments in which one kind of call fails;
  a world in which nothing has happened yet; two handshakes with different ids; a
  metadata builder that accepts every handshake and one that refuses every handshake.
\<close>

definition env_ok :: Env where
  "env_ok =
     \<lparr>WriteFrame_err = \<lambda>_. None, CloseWithError_err = None, OpenStreamSync_err = \<lambda>_. None,
      Write_err = \<lambda>_. None, Close_err = \<lambda>_. None, Get_err = \<lambda>_. None,
      NewHandshakeAckFrame = HandshakeAckFrame [], ErrorCodeRejected = 0xCC\<rparr>"

definition env_open_fails :: Env where
  "env_open_fails = env_ok\<lparr>OpenStreamSync_err := \<lambda>_. Some (Error ''too many open streams'')\<rparr>"

definition env_write_fails :: Env where
  "env_write_fails = env_ok\<lparr>Write_err := \<lambda>_. Some (Error ''write on closed stream'')\<rparr>"

definition env_close_fails :: Env where
  "env_close_fails = env_ok\<lparr>Close_err := \<lambda>_. Some (Error ''close of closed stream'')\<rparr>"

definition world0 :: "unit World" where
  "world0 =
     \<lparr>WriteFrame_calls = [], CloseWithError_calls = [], opened = 0, Write_calls = \<lambda>_. [],
      Close_calls = \<lambda>_. 0, connector = Map.empty, group = 0, spawned = [], logs = []\<rparr>"

definition handshake1 :: Frame where
  "handshake1 = HandshakeFrame ''src'' ''s1'' 0 [42] []"

definition handshake2 :: Frame where
  "handshake2 = HandshakeFrame ''sfn'' ''s2'' 1 [42] []"

definition mb_ok :: "Frame \<Rightarrow> error + unit" where
  "mb_ok ff = Inr ()"

definition mb_fail :: "Frame \<Rightarrow> error + unit" where
  "mb_fail ff = Inl (Error ''metadata: cannot build'')"

section \<open>Frame type codes\<close>

lemmas Type_codes =
  TypeAuthenticationFrame_def TypeAuthenticationAckFrame_def TypeDataFrame_def
  TypeHandshakeFrame_def TypeHandshakeRejectedFrame_def TypeHandshakeAckFrame_def
  TypeRejectedFrame_def TypeBackflowFrame_def TypeGoawayFrame_def

text \<open>
  C9. The type code of each of the nine frame types, as the constant and as the value the
  frame's \<^verbatim>\<open>Type()\<close> method returns, is the one of the wire table: Authentication 0x03,
  AuthenticationAck 0x11, Data 0x3F, Handshake 0x31, HandshakeRejected 0x14,
  HandshakeAck 0x29, Rejected 0x39, Backflow 0x2D, Goaway 0x2E.
\<close>

theorem frame_type_codes:
  "Type (AuthenticationFrame n p) = 0x03 \<and> TypeAuthenticationFrame = 0x03 \<and>
   Type AuthenticationAckFrame = 0x11 \<and> TypeAuthenticationAckFrame = 0x11 \<and>
   Type (DataFrame m t d) = 0x3F \<and> TypeDataFrame = 0x3F \<and>
   Type (HandshakeFrame hn hi hs ho hm) = 0x31 \<and> TypeHandshakeFrame = 0x31 \<and>
   Type (HandshakeRejectedFrame ri rm) = 0x14 \<and> TypeHandshakeRejectedFrame = 0x14 \<and>
   Type (HandshakeAckFrame s) = 0x29 \<and> TypeHandshakeAckFrame = 0x29 \<and>
   Type (RejectedFrame jm) = 0x39 \<and> TypeRejectedFrame = 0x39 \<and>
   Type (BackflowFrame bt bc) = 0x2D \<and> TypeBackflowFrame = 0x2D \<and>
   Type (GoawayFrame gm) = 0x2E \<and> TypeGoawayFrame = 0x2E"
  by (simp add: Type_codes)

section \<open>NewFrame\<close>

lemma NewFrame_known:
  "t \<in> frameTypes \<Longrightarrow> \<exists>f. NewFrame t = Inr f \<and> Type f = t"
  unfolding frameTypes_def NewFrame_def frameTypeNewFuncMap_def
  by (auto simp: Type_codes)

lemma NewFrame_unknown:
  "t \<notin> frameTypes \<Longrightarrow> \<exists>e. NewFrame t = Inl e"
  unfolding frameTypes_def NewFrame_def frameTypeNewFuncMap_def
  by (simp add: Type_codes)

text \<open>
  C10. For each of the nine type constants \<open>t\<close>, \<open>NewFrame t\<close> returns a frame whose
  \<^verbatim>\<open>Type()\<close> is \<open>t\<close>, and no error; for every other byte it returns no frame and an
  error.
\<close>

theorem NewFrame_total_on_codes:
  "(t \<in> frameTypes \<longrightarrow> (\<exists>f. NewFrame t = Inr f \<and> Type f = t)) \<and>
   (t \<notin> frameTypes \<longrightarrow> (\<exists>e. NewFrame t = Inl e))"
  using NewFrame_known NewFrame_unknown by blast

theorem NewFrame_total_on_codes_witness:
  "(0x31 :: Type) \<in> frameTypes \<and> (\<exists>f. NewFrame 0x31 = Inr f \<and> Type f = 0x31) \<and>
   (0x00 :: Type) \<notin> frameTypes \<and> (\<exists>e. NewFrame 0x00 = Inl e)"
proof -
  have known: "(0x31 :: Type) \<in> frameTypes"
    by (simp add: frameTypes_def Type_codes)
  have unknown: "(0x00 :: Type) \<notin> frameTypes"
    by (simp add: frameTypes_def Type_codes)
  from known unknown
    NewFrame_total_on_codes [of "0x31"] NewFrame_total_on_codes [of "0x00"]
  show ?thesis by blast
qed

section \<open>Facts about the loop\<close>

lemmas call_defs =
  OpenStreamSync_def Write_def Close_def Connector_Add_def Connector_Get_def
  Connector_Remove_def logAt_def newDataStream_def

lemmas sample_defs =
  env_ok_def env_open_fails_def env_write_fails_def env_close_fails_def world0_def
  handshake1_def handshake2_def mb_ok_def mb_fail_def

lemma Run_single: "Run env mb [Inr f] w = iteration env mb f w"
  by (cases "iteration env mb f w") (auto split: option.splits)

lemma Run_Cons:
  "Run env mb (Inr f # reads) w =
     (case Run env mb [Inr f] w of
        (Some err, w1) \<Rightarrow> (Some err, w1)
      | (None, w1) \<Rightarrow> Run env mb reads w1)"
  by (cases "iteration env mb f w") (auto split: option.splits)

lemma VerifyAuthentication_not_authentication:
  "asAuthenticationFrame f = None \<Longrightarrow> VerifyAuthentication env verifyFunc (Inr f) w = (None, w)"
  by (simp add: VerifyAuthentication_def)

section \<open>VerifyAuthentication\<close>

text \<open>
  C1. The claim: when the first frame of the control stream is read without error and is
  not an AuthenticationFrame, VerifyAuthentication writes an AuthenticationRespFrame with
  ok=false, closes the connection with the code Rejected and returns an error. The code
  at a DataFrame: it returns nil and the world is as before the call, so no frame was
  written and the connection was not closed.
\<close>

theorem VerifyAuthentication_unexpected_frame:
  "VerifyAuthentication env verifyFunc (Inr (Declared (DataFrame md t p))) w = (None, w)"
  by (simp add: VerifyAuthentication_def)

text \<open>
  C4. The claim: when the verifier returns (false, nil), VerifyAuthentication writes an
  AuthenticationRespFrame with ok=false and a reason, closes the connection with the code
  Rejected and returns an error that is not nil. The code, where the write and the close
  succeed: the response is written and the connection is closed with the code Rejected,
  and the error returned is the one of \<^verbatim>\<open>CloseWithError\<close>, which is nil.
\<close>

theorem VerifyAuthentication_rejected_returns_nil:
  "VerifyAuthentication env_ok (\<lambda>f. (False, None))
     (Inr (Declared (AuthenticationFrame ''bad'' ''t1''))) world0 =
   (None,
    world0\<lparr>WriteFrame_calls :=
             [AuthenticationRespFrame False
                ''yomo: authentication failed, client credential name is bad''],
           CloseWithError_calls :=
             [(ErrorCodeRejected env_ok,
               ''yomo: authentication failed, client credential name is bad'')]\<rparr>)"
  by (simp add: VerifyAuthentication_def authFailed_def WriteFrame_def CloseWithError_def
      NewAuthenticationRespFrame_def env_ok_def world0_def)

text \<open>
  C7. Whatever the read returns, whatever the verifier returns and whatever the calls on
  the control stream and the connection return, one execution of VerifyAuthentication
  passes at most one frame to \<^verbatim>\<open>WriteFrame\<close> on the control stream, so at most one
  AuthenticationRespFrame is written.
\<close>

theorem VerifyAuthentication_writes_at_most_once:
  "\<exists>fs. WriteFrame_calls (snd (VerifyAuthentication env verifyFunc first w)) =
          WriteFrame_calls w @ fs \<and> length fs \<le> 1"
  by (auto simp: VerifyAuthentication_def authFailed_def authOK_def WriteFrame_def
      CloseWithError_def Let_def split: sum.splits option.splits prod.splits)

section \<open>Run: handshakes\<close>

text \<open>
  C2, as claimed, fails: with the constructor returning the zero-valued struct, the frame
  written first on the new stream of the handshake with id s1 and on the one of the
  handshake with id s2 is the same, with an empty stream id.
\<close>

theorem handshake_ack_stream_id_counterexample:
  "Write_calls (snd (Run env_ok mb_ok [Inr (Declared handshake1), Inr (Declared handshake2)]
       world0)) 0 = [HandshakeAckFrame []] \<and>
   Write_calls (snd (Run env_ok mb_ok [Inr (Declared handshake1), Inr (Declared handshake2)]
       world0)) 1 = [HandshakeAckFrame []] \<and>
   StreamID (HandshakeAckFrame []) \<noteq> ID handshake1 \<and>
   StreamID (HandshakeAckFrame []) \<noteq> ID handshake2"
  by (simp add: call_defs sample_defs Let_def)

text \<open>
  C2, amended. For every HandshakeFrame processed by Run for which the transport stream
  is opened, the frame whose encoding is passed to \<^verbatim>\<open>Write\<close> on the new stream is the
  one that \<^verbatim>\<open>NewHandshakeAckFrame()\<close>, called without arguments, returns: the same frame
  for every handshake, whatever its id.
\<close>

theorem handshake_ack_is_constructor_result:
  "OpenStreamSync_err env (opened w) = None \<Longrightarrow>
   Write_calls (snd (Run env mb [Inr (Declared (HandshakeFrame n i st obs m))] w)) (opened w) =
     Write_calls w (opened w) @ [NewHandshakeAckFrame env]"
  by (simp add: call_defs Let_def split: sum.splits option.splits)

theorem handshake_ack_is_constructor_result_witness:
  "OpenStreamSync_err env_ok (opened world0) = None \<and>
   Write_calls (snd (Run env_ok mb_ok [Inr (Declared handshake1)] world0)) 0 =
     [NewHandshakeAckFrame env_ok]"
proof -
  have opens: "OpenStreamSync_err env_ok (opened world0) = None"
    by (simp add: sample_defs)
  from handshake_ack_is_constructor_result [OF opens, of mb_ok "''src''" "''s1''" 0 "[42]" "[]"]
  show ?thesis
    using opens by (simp add: world0_def handshake1_def)
qed

text \<open>
  C3, as claimed, fails: where \<^verbatim>\<open>Write\<close> on the new stream returns an error, Run does
  not return it. After the handshake the loop is still running and the data stream is in
  the Connector, and when the next read fails it is the error of the read that Run returns.
\<close>

theorem handshake_ack_write_failure_counterexample:
  "Write_err env_write_fails 0 = Some (Error ''write on closed stream'') \<and>
   fst (Run env_write_fails mb_ok [Inr (Declared handshake1)] world0) = None \<and>
   dom (connector (snd (Run env_write_fails mb_ok [Inr (Declared handshake1)] world0))) = {''s1''} \<and>
   fst (Run env_write_fails mb_ok [Inr (Declared handshake1), Inl (Error ''EOF'')] world0) =
     Some (Error ''EOF'')"
  by (simp add: call_defs sample_defs Let_def)

text \<open>
  C3, amended. For every HandshakeFrame handled by Run, a failure of opening the
  transport stream is fatal: Run leaves the loop and returns the error of the open, with
  nothing else done.
\<close>

theorem open_stream_failure_is_fatal:
  "OpenStreamSync_err env (opened w) = Some e \<Longrightarrow>
   Run env mb (Inr (Declared (HandshakeFrame n i st obs m)) # reads) w = (Some e, w)"
  by (simp add: call_defs)

theorem open_stream_failure_is_fatal_witness:
  "OpenStreamSync_err env_open_fails (opened world0) = Some (Error ''too many open streams'') \<and>
   Run env_open_fails mb_ok [Inr (Declared handshake1), Inr (Declared handshake2)] world0 =
     (Some (Error ''too many open streams''), world0)"
proof -
  have fails: "OpenStreamSync_err env_open_fails (opened world0) =
      Some (Error ''too many open streams'')"
    by (simp add: sample_defs)
  from open_stream_failure_is_fatal [OF fails, of mb_ok "''src''" "''s1''" 0 "[42]" "[]"
      "[Inr (Declared handshake2)]"]
  show ?thesis
    using fails by (simp add: handshake1_def)
qed

text \<open>
  C5. For every HandshakeFrame for which the metadata builder returns an error, the
  Connector, the counter of the wait group and the list of goroutines started are after
  the handshake what they were before it: no data stream is added, the counter is not
  incremented and no task is spawned. Where the transport stream was opened, so that the
  builder is called, Run logs the warning and goes on with the next read.
\<close>

theorem metadata_build_failure_skips_handshake:
  assumes "mb (HandshakeFrame n i st obs m) = Inl e"
  shows "let H = Inr (Declared (HandshakeFrame n i st obs m));
             w' = snd (Run env mb [H] w)
         in connector w' = connector w \<and> group w' = group w \<and> spawned w' = spawned w \<and>
            (OpenStreamSync_err env (opened w) = None \<longrightarrow>
               logs w' = logs w @ [(WarnLevel, ''Build Metadata Failed'')] \<and>
               Run env mb (H # reads) w = Run env mb reads w')"
  using assms by (simp add: call_defs Let_def split: option.splits)

theorem metadata_build_failure_skips_handshake_witness:
  "mb_fail handshake1 = Inl (Error ''metadata: cannot build'') \<and>
   OpenStreamSync_err env_ok (opened world0) = None \<and>
   connector (snd (Run env_ok mb_fail [Inr (Declared handshake1)] world0)) = Map.empty \<and>
   group (snd (Run env_ok mb_fail [Inr (Declared handshake1)] world0)) = 0 \<and>
   spawned (snd (Run env_ok mb_fail [Inr (Declared handshake1)] world0)) = [] \<and>
   logs (snd (Run env_ok mb_fail [Inr (Declared handshake1)] world0)) =
     [(WarnLevel, ''Build Metadata Failed'')] \<and>
   Run env_ok mb_fail [Inr (Declared handshake1), Inr (Declared handshake2)] world0 =
     Run env_ok mb_fail [Inr (Declared handshake2)]
       (snd (Run env_ok mb_fail [Inr (Declared handshake1)] world0))"
proof -
  have build: "mb_fail (HandshakeFrame ''src'' ''s1'' 0 [42] []) =
      Inl (Error ''metadata: cannot build'')"
    by (simp add: mb_fail_def)
  have opens: "OpenStreamSync_err env_ok (opened world0) = None"
    by (simp add: sample_defs)
  from build opens
    metadata_build_failure_skips_handshake
      [where mb = mb_fail and n = "''src''" and i = "''s1''" and st = 0 and obs = "[42]"
         and m = "[]" and env = env_ok and w = world0
         and reads = "[Inr (Declared handshake2)]"]
  show ?thesis
    by (simp add: Let_def handshake1_def world0_def)
qed

section \<open>Run: closing streams\<close>

text \<open>
  C6. A CloseStreamFrame whose id is not in the Connector closes nothing, changes nothing
  in the Connector and does not end the loop. When the id is in the Connector, two
  CloseStreamFrames for it in a row make exactly one call of \<^verbatim>\<open>Close\<close>, on the stream
  registered under the id, and none on any other stream; the id is then removed; an error
  of the close is logged; and whatever the close returns, the loop goes on with the reads
  that follow.
\<close>

theorem close_stream_twice_closes_once:
  "(connector w sid = None \<longrightarrow>
      (let w' = snd (Run env mb [Inr (CloseStreamFrame sid r1)] w)
       in Close_calls w' = Close_calls w \<and> connector w' = connector w \<and>
          Run env mb (Inr (CloseStreamFrame sid r1) # reads) w = Run env mb reads w')) \<and>
   (connector w sid = Some s \<longrightarrow>
      (let w' = snd (Run env mb [Inr (CloseStreamFrame sid r1), Inr (CloseStreamFrame sid r2)] w)
       in Close_calls w' = (Close_calls w)(ds_stream s := Suc (Close_calls w (ds_stream s))) \<and>
          connector w' = (connector w)(sid := None) \<and>
          (Close_err env (ds_stream s) \<noteq> None \<longrightarrow>
             (ErrorLevel, ''Close Stream Error'') \<in> set (logs w')) \<and>
          Run env mb (Inr (CloseStreamFrame sid r1) # Inr (CloseStreamFrame sid r2) # reads) w =
            Run env mb reads w'))"
  by (auto simp add: call_defs Let_def split: option.splits)

theorem close_stream_twice_closes_once_witness:
  "connector world0 ''s1'' = None \<and>
   Close_calls (snd (Run env_close_fails mb_ok [Inr (CloseStreamFrame ''s1'' ''done'')] world0)) =
     Close_calls world0 \<and>
   connector (snd (Run env_ok mb_ok [Inr (Declared handshake1)] world0)) ''s1'' =
     Some (newDataStream ''src'' ''s1'' 0 () 0 [42]) \<and>
   Close_calls (snd (Run env_close_fails mb_ok
       [Inr (CloseStreamFrame ''s1'' ''done''), Inr (CloseStreamFrame ''s1'' ''again'')]
       (snd (Run env_ok mb_ok [Inr (Declared handshake1)] world0)))) 0 = 1 \<and>
   connector (snd (Run env_close_fails mb_ok
       [Inr (CloseStreamFrame ''s1'' ''done''), Inr (CloseStreamFrame ''s1'' ''again'')]
       (snd (Run env_ok mb_ok [Inr (Declared handshake1)] world0)))) = Map.empty \<and>
   (ErrorLevel, ''Close Stream Error'') \<in> set (logs (snd (Run env_close_fails mb_ok
       [Inr (CloseStreamFrame ''s1'' ''done''), Inr (CloseStreamFrame ''s1'' ''again'')]
       (snd (Run env_ok mb_ok [Inr (Declared handshake1)] world0)))))"
proof -
  let ?w1 = "snd (Run env_ok mb_ok [Inr (Declared handshake1)] world0)"
  let ?s = "newDataStream ''src'' ''s1'' 0 () 0 [42] :: unit DataStream"
  have absent: "connector world0 ''s1'' = None"
    by (simp add: world0_def)
  have present: "connector ?w1 ''s1'' = Some ?s"
    by (simp add: call_defs sample_defs Let_def)
  have fails: "Close_err env_close_fails (ds_stream ?s) \<noteq> None"
    by (simp add: sample_defs)
  have calls0: "Close_calls ?w1 = (\<lambda>_. 0)" and conn1: "connector ?w1 = [''s1'' \<mapsto> ?s]"
    by (simp_all add: call_defs sample_defs Let_def)
  from absent
    close_stream_twice_closes_once
      [where w = world0 and sid = "''s1''" and env = env_close_fails and mb = mb_ok
         and ?r1.0 = "''done''" and reads = "[]"]
  have first: "Close_calls (snd (Run env_close_fails mb_ok
      [Inr (CloseStreamFrame ''s1'' ''done'')] world0)) = Close_calls world0"
    by (simp add: Let_def)
  from present fails
    close_stream_twice_closes_once
      [where w = ?w1 and sid = "''s1''" and s = ?s and env = env_close_fails and mb = mb_ok
         and ?r1.0 = "''done''" and ?r2.0 = "''again''" and reads = "[]"]
  have second: "Close_calls (snd (Run env_close_fails mb_ok
        [Inr (CloseStreamFrame ''s1'' ''done''), Inr (CloseStreamFrame ''s1'' ''again'')] ?w1)) =
        (Close_calls ?w1)(ds_stream ?s := Suc (Close_calls ?w1 (ds_stream ?s))) \<and>
      connector (snd (Run env_close_fails mb_ok
        [Inr (CloseStreamFrame ''s1'' ''done''), Inr (CloseStreamFrame ''s1'' ''again'')] ?w1)) =
        (connector ?w1)(''s1'' := None) \<and>
      (ErrorLevel, ''Close Stream Error'') \<in> set (logs (snd (Run env_close_fails mb_ok
        [Inr (CloseStreamFrame ''s1'' ''done''), Inr (CloseStreamFrame ''s1'' ''again'')] ?w1)))"
    by (simp add: Let_def)
  from absent present first second show ?thesis
    by (simp add: calls0 conn1 newDataStream_def del: Run.simps)
qed

section \<open>Run: the Connector over a sequence of frames\<close>

text \<open>
  C8. For the reads H1, H2, CloseStream(H1.id), with different ids, both transport streams
  opened and both metadata builds successful, the Connector after the first read is the
  one before with the data stream of H1 under the id of H1, after the second also with the
  data stream of H2 under the id of H2, and after the third without the id of H1 and with
  nothing else changed. From an empty Connector: H1, then H1 and H2, then H2 only.
\<close>

theorem connector_follows_handshakes_and_close:
  assumes "i1 \<noteq> i2"
    and "mb (HandshakeFrame n1 i1 st1 obs1 m1) = Inr md1"
    and "mb (HandshakeFrame n2 i2 st2 obs2 m2) = Inr md2"
    and "OpenStreamSync_err env (opened w) = None"
    and "OpenStreamSync_err env (Suc (opened w)) = None"
  shows "let H1 = Inr (Declared (HandshakeFrame n1 i1 st1 obs1 m1));
             H2 = Inr (Declared (HandshakeFrame n2 i2 st2 obs2 m2));
             C = Inr (CloseStreamFrame i1 r);
             s1 = newDataStream n1 i1 st1 md1 (opened w) obs1;
             s2 = newDataStream n2 i2 st2 md2 (Suc (opened w)) obs2
         in connector (snd (Run env mb [H1] w)) = (connector w)(i1 \<mapsto> s1) \<and>
            connector (snd (Run env mb [H1, H2] w)) = (connector w)(i1 \<mapsto> s1, i2 \<mapsto> s2) \<and>
            connector (snd (Run env mb [H1, H2, C] w)) = (connector w)(i2 \<mapsto> s2, i1 := None) \<and>
            fst (Run env mb [H1, H2, C] w) = None"
  using assms by (auto simp add: call_defs Let_def split: option.splits)

theorem connector_follows_handshakes_and_close_witness:
  "ID handshake1 \<noteq> ID handshake2 \<and>
   connector (snd (Run env_ok mb_ok [Inr (Declared handshake1)] world0)) =
     [''s1'' \<mapsto> newDataStream ''src'' ''s1'' 0 () 0 [42]] \<and>
   connector (snd (Run env_ok mb_ok [Inr (Declared handshake1), Inr (Declared handshake2)]
       world0)) =
     [''s1'' \<mapsto> newDataStream ''src'' ''s1'' 0 () 0 [42],
      ''s2'' \<mapsto> newDataStream ''sfn'' ''s2'' 1 () 1 [42]] \<and>
   connector (snd (Run env_ok mb_ok [Inr (Declared handshake1), Inr (Declared handshake2),
       Inr (CloseStreamFrame ''s1'' ''done'')] world0)) =
     [''s2'' \<mapsto> newDataStream ''sfn'' ''s2'' 1 () 1 [42]]"
proof -
  have ids: "''s1'' \<noteq> ''s2''"
    by simp
  have build1: "mb_ok (HandshakeFrame ''src'' ''s1'' 0 [42] []) = Inr ()"
    and build2: "mb_ok (HandshakeFrame ''sfn'' ''s2'' 1 [42] []) = Inr ()"
    by (simp_all add: mb_ok_def)
  have open1: "OpenStreamSync_err env_ok (opened world0) = None"
    and open2: "OpenStreamSync_err env_ok (Suc (opened world0)) = None"
    by (simp_all add: sample_defs)
  from connector_follows_handshakes_and_close [OF ids build1 build2 open1 open2, of "''done''"]
  show ?thesis
    by (simp add: Let_def handshake1_def handshake2_def world0_def)
qed

end
